theory Spec2Isabelle
  imports Main
begin

section \<open>Log levels and their names (incl/scc/report.h, lines 30-64)\<close>

text \<open>
  \<^verbatim>\<open>enum class log { NONE, FATAL, ERROR, WARNING, INFO, DEBUG, TRACE, TRACEALL,
  DBGTRACE = TRACEALL }\<close>: eight values, \<open>DBGTRACE\<close> being a second name of the last.
\<close>

datatype log = NONE | FATAL | ERROR | WARNING | INFO | DEBUG | TRACE | TRACEALL

abbreviation DBGTRACE :: log where
  "DBGTRACE \<equiv> TRACEALL"

text \<open>\<^verbatim>\<open>static_cast<int>(l)\<close> and \<^verbatim>\<open>static_cast<unsigned>(l)\<close>: the enumerators count from 0.\<close>

fun log_to_int :: "log \<Rightarrow> int" where
  "log_to_int NONE = 0"
| "log_to_int FATAL = 1"
| "log_to_int ERROR = 2"
| "log_to_int WARNING = 3"
| "log_to_int INFO = 4"
| "log_to_int DEBUG = 5"
| "log_to_int TRACE = 6"
| "log_to_int TRACEALL = 7"

text \<open>The array \<^verbatim>\<open>buffer\<close> of line 31.\<close>

definition buffer :: "string list" where
  "buffer = [''NONE'', ''FATAL'', ''ERROR'', ''WARNING'', ''INFO'', ''DEBUG'', ''TRACE'',
             ''TRACEALL'']"

text \<open>
  What can go wrong in \<^verbatim>\<open>as_log\<close>: the \<^verbatim>\<open>assert\<close> fails, or the array \<^verbatim>\<open>m\<close> is read
  outside its eight elements.
\<close>

datatype error = Assertion_failed | Index_out_of_bounds

text \<open>The local array \<^verbatim>\<open>m\<close> of \<^verbatim>\<open>as_log\<close> (line 41).\<close>

definition as_log_m :: "log list" where
  "as_log_m = [NONE, FATAL, ERROR, WARNING, INFO, DEBUG, TRACE, TRACEALL]"

text \<open>
  \<^verbatim>\<open>as_log\<close> (lines 39-43): the assertion first, then \<^verbatim>\<open>m[logLevel]\<close>. The index check
  is not in the source; it makes an out-of-range read a value of the model.
\<close>

definition as_log :: "int \<Rightarrow> error + log" where
  "as_log logLevel =
     (if \<not> (log_to_int NONE \<le> logLevel \<and> logLevel \<le> log_to_int TRACEALL)
      then Inl Assertion_failed
      else if nat logLevel < length as_log_m then Inr (as_log_m ! nat logLevel)
      else Inl Index_out_of_bounds)"

subsection \<open>Character strings\<close>

text \<open>
  A \<^verbatim>\<open>std::string\<close> is any sequence of characters; a \<^verbatim>\<open>const char*\<close> is read up to
  its first NUL character. \<^verbatim>\<open>c_str()\<close> hands the characters of a \<^verbatim>\<open>std::string\<close> out as
  a \<^verbatim>\<open>const char*\<close>, so whoever reads the result sees the characters before the first NUL.
\<close>

definition c_str :: "string \<Rightarrow> string" where
  "c_str s = takeWhile (\<lambda>c. c \<noteq> CHR 0x00) s"

subsection \<open>Input streams\<close>

text \<open>
  The part of a \<^verbatim>\<open>std::istream\<close> that \<^verbatim>\<open>operator>>\<close> touches: the characters not yet
  read and the three state bits.
\<close>

record istream =
  chars :: string
  eofbit :: bool
  failbit :: bool
  badbit :: bool

text \<open>\<^verbatim>\<open>std::isspace\<close> in the classic locale.\<close>

definition isspace :: "char \<Rightarrow> bool" where
  "isspace c = (c = CHR 0x20 \<or> c = CHR 0x09 \<or> c = CHR 0x0A \<or> c = CHR 0x0B \<or> c = CHR 0x0C
                \<or> c = CHR 0x0D)"

text \<open>
  \<^verbatim>\<open>is >> buf\<close> for a \<^verbatim>\<open>std::string buf\<close> (line 52), as the C++ standard library defines
  it for a stream with its default flags (\<^verbatim>\<open>skipws\<close> set, width 0, no exception mask):
  a stream that is not good only gets \<^verbatim>\<open>failbit\<close>; otherwise leading white space is
  skipped and characters are taken up to the next white space or the end of the input.
  \<^verbatim>\<open>eofbit\<close> is set when the end was reached, \<^verbatim>\<open>failbit\<close> when no character was taken.
\<close>

definition extract_string :: "istream \<Rightarrow> istream \<times> string" where
  "extract_string istr =
     (if eofbit istr \<or> failbit istr \<or> badbit istr then (istr\<lparr>failbit := True\<rparr>, [])
      else
        let rest = dropWhile isspace (chars istr);
            buf = takeWhile (\<lambda>c. \<not> isspace c) rest;
            rest' = dropWhile (\<lambda>c. \<not> isspace c) rest
        in (istr\<lparr>chars := rest', eofbit := (rest' = []), failbit := (buf = [])\<rparr>, buf))"

text \<open>
  The loop of \<^verbatim>\<open>operator>>\<close> (lines 53-58), \<open>i\<close> running from 0 to
  \<^verbatim>\<open>static_cast<unsigned>(log::TRACEALL)\<close>. \<^verbatim>\<open>std::strcmp(buf.c_str(), buffer[i]) == 0\<close>
  compares two C strings, and the elements of \<^verbatim>\<open>buffer\<close> hold no NUL.
\<close>

function operator_extract_loop :: "nat \<Rightarrow> string \<Rightarrow> log \<Rightarrow> error + log" where
  "operator_extract_loop i buf val =
     (if i \<le> nat (log_to_int TRACEALL) then
        (if c_str buf = buffer ! i then as_log (int i)
         else operator_extract_loop (i + 1) buf val)
      else Inr val)"
  by pat_completeness auto
termination
  by (relation "measure (\<lambda>(i, buf, val). 8 - i)") auto

declare operator_extract_loop.simps [simp del]

text \<open>
  \<^verbatim>\<open>std::istream& operator>>(std::istream& is, log& val)\<close> (lines 50-60): the stream it
  returns and the value left in \<^verbatim>\<open>val\<close>.
\<close>

definition operator_extract :: "istream \<Rightarrow> log \<Rightarrow> error + (istream \<times> log)" where
  "operator_extract istr val =
     (case extract_string istr of
        (istr', buf) \<Rightarrow>
          (case operator_extract_loop 0 buf val of
             Inl e \<Rightarrow> Inl e
           | Inr val' \<Rightarrow> Inr (istr', val')))"

text \<open>
  \<^verbatim>\<open>std::ostream& operator<<(std::ostream& os, log const& val)\<close> (lines 61-64); the
  stream is the text written to it so far.
\<close>

definition operator_insert :: "string \<Rightarrow> log \<Rightarrow> string" where
  "operator_insert os val = os @ buffer ! nat (log_to_int val)"

text \<open>A fresh input stream over a text, as \<^verbatim>\<open>std::istringstream(s)\<close> gives.\<close>

definition istringstream :: "string \<Rightarrow> istream" where
  "istringstream s = \<lparr>chars = s, eofbit = False, failbit = False, badbit = False\<rparr>"

section \<open>The report interface of SystemC\<close>

text \<open>
  The library is not part of the sources; what the header uses of it is fixed by the
  SystemC standard (IEEE 1666): the severities, the verbosity constants
  \<^verbatim>\<open>SC_NONE = 0, SC_LOW = 100, SC_MEDIUM = 200, SC_HIGH = 300, SC_FULL = 400, SC_DEBUG = 500\<close>,
  and \<^verbatim>\<open>sc_report_handler::report(severity, msg_type, msg, verbosity, file, line)\<close>, whose
  three texts are \<^verbatim>\<open>const char*\<close>.
\<close>

datatype sc_severity = SC_INFO | SC_WARNING | SC_ERROR | SC_FATAL

definition SC_NONE :: int where "SC_NONE = 0"
definition SC_LOW :: int where "SC_LOW = 100"
definition SC_MEDIUM :: int where "SC_MEDIUM = 200"
definition SC_HIGH :: int where "SC_HIGH = 300"
definition SC_FULL :: int where "SC_FULL = 400"
definition SC_DEBUG :: int where "SC_DEBUG = 500"

text \<open>One call of \<^verbatim>\<open>sc_report_handler::report\<close>, with the arguments as the handler reads them.\<close>

record report =
  rep_severity :: sc_severity
  rep_msg_type :: string
  rep_msg :: string
  rep_verbosity :: int
  rep_file :: string
  rep_line :: int

text \<open>
  The header stores and passes \<^verbatim>\<open>char\<close> pointers, so the storage they point to is part of
  the state. An address is a number. \<open>memory\<close> gives the characters of each character
  array that is alive (the array behind a \<^verbatim>\<open>char const*\<close>, or the buffer of a
  \<^verbatim>\<open>std::string\<close>); an address with no entry holds no live object. Reading through a
  pointer to dead storage is undefined in C++; the model lets such a read find the
  arbitrary characters \<open>residue\<close> and promises nothing about them.

  The rest of the process-wide state: the global verbosity level of the report handler,
  the verbosity levels registered for single categories, the calls of
  \<^verbatim>\<open>sc_report_handler::report\<close> made so far, in order, and the number of \<^verbatim>\<open>ScLogger\<close>
  objects constructed so far.
\<close>

type_synonym addr = nat

record world =
  verbosity_level :: int
  category_level :: "string \<rightharpoonup> int"
  memory :: "addr \<rightharpoonup> string"
  residue :: "addr \<Rightarrow> string"
  delivered :: "report list"
  constructed :: nat

text \<open>The characters found at an address when it is read.\<close>

definition deref :: "world \<Rightarrow> addr \<Rightarrow> string" where
  "deref w p = (case memory w p of Some s \<Rightarrow> s | None \<Rightarrow> residue w p)"

text \<open>
  A call of the report handler, given the characters found at its three pointers. The
  handler receives \<^verbatim>\<open>const char*\<close> arguments, so it reads each text up to its first NUL.
\<close>

definition sc_report_handler_report ::
  "sc_severity \<Rightarrow> string \<Rightarrow> string \<Rightarrow> int \<Rightarrow> string \<Rightarrow> int \<Rightarrow> world \<Rightarrow> world" where
  "sc_report_handler_report sev msg_type msg verbosity fl ln w =
     w\<lparr>delivered := delivered w @
        [\<lparr>rep_severity = sev, rep_msg_type = c_str msg_type, rep_msg = c_str msg,
          rep_verbosity = verbosity, rep_file = c_str fl, rep_line = ln\<rparr>]\<rparr>"

section \<open>Verbosity queries (lines 132-148)\<close>

text \<open>\<^verbatim>\<open>get_log_verbosity()\<close> (lines 132-134): the handler's global verbosity level.\<close>

definition get_log_verbosity :: "world \<Rightarrow> int" where
  "get_log_verbosity w = verbosity_level w"

text \<open>
  Modelled from the spec: \<^verbatim>\<open>get_log_verbosity(char const* t)\<close> is declared on line 140 and
  defined outside the sources. Its comment there reads "return an scope specific verbosity
  level if defined. Otherwise the global verbosity level", and the spec says of it:
  "returns the per-category override if one is registered for that category, else the
  global threshold". The category is the C string found at \<^verbatim>\<open>t\<close> during the call; a null
  pointer names no category.
\<close>

definition get_log_verbosity_cstr :: "world \<Rightarrow> addr option \<Rightarrow> int" where
  "get_log_verbosity_cstr w t =
     (case t of
        None \<Rightarrow> get_log_verbosity w
      | Some p \<Rightarrow>
          (case category_level w (c_str (deref w p)) of
             Some v \<Rightarrow> v
           | None \<Rightarrow> get_log_verbosity w))"

text \<open>
  \<^verbatim>\<open>get_log_verbosity(std::string const& t)\<close> (lines 146-148): the call above with
  \<^verbatim>\<open>t.c_str()\<close>. A \<^verbatim>\<open>std::string\<close> is given by the address of its characters.
\<close>

definition get_log_verbosity_string :: "world \<Rightarrow> addr \<Rightarrow> int" where
  "get_log_verbosity_string w p = get_log_verbosity_cstr w (Some p)"

section \<open>The logger (lines 152-239)\<close>

text \<open>
  An \<^verbatim>\<open>ScLogger<SEVERITY>\<close> object: the template argument and the members \<^verbatim>\<open>os\<close>, \<^verbatim>\<open>t\<close>,
  \<^verbatim>\<open>file\<close>, \<^verbatim>\<open>line\<close> and \<^verbatim>\<open>level\<close>. \<^verbatim>\<open>os\<close> is the text written to the string stream so
  far. \<^verbatim>\<open>t\<close> is a pointer: \<open>None\<close> when null, otherwise the address it holds. \<^verbatim>\<open>file\<close> is
  given by its characters: the macros pass \<^verbatim>\<open>__FILE__\<close>, a literal that lives as long as
  the program.
\<close>

record ScLogger =
  logger_SEVERITY :: sc_severity
  logger_os :: string
  logger_t :: "addr option"
  logger_file :: string
  logger_line :: int
  logger_level :: int

text \<open>The constructor (lines 160-164); the world counts the object.\<close>

definition ScLogger_ctor ::
  "sc_severity \<Rightarrow> string \<Rightarrow> int \<Rightarrow> int \<Rightarrow> world \<Rightarrow> ScLogger \<times> world" where
  "ScLogger_ctor sev fl ln verbosity w =
     (\<lparr>logger_SEVERITY = sev, logger_os = [], logger_t = None, logger_file = fl,
       logger_line = ln, logger_level = verbosity\<rparr>,
      w\<lparr>constructed := constructed w + 1\<rparr>)"

text \<open>
  The destructor (lines 194-196):
  \<^verbatim>\<open>report(SEVERITY, t ? t : "SystemC", os.str().c_str(), level, file, line)\<close>. The
  pointer \<^verbatim>\<open>t\<close> is followed now, in the world as it is when the logger dies.
\<close>

definition ScLogger_dtor :: "ScLogger \<Rightarrow> world \<Rightarrow> world" where
  "ScLogger_dtor lg w =
     sc_report_handler_report (logger_SEVERITY lg)
       (case logger_t lg of Some p \<Rightarrow> deref w p | None \<Rightarrow> ''SystemC'')
       (logger_os lg) (logger_level lg) (logger_file lg) (logger_line lg) w"

text \<open>
  What stands between the parentheses of \<^verbatim>\<open>type(...)\<close>: nothing, a \<^verbatim>\<open>char const*\<close>
  (possibly null), or a \<^verbatim>\<open>std::string\<close>, given by the address of its characters.
\<close>

datatype va_args = No_args | Cstr_arg "addr option" | String_arg addr

text \<open>
  The three overloads of \<^verbatim>\<open>type\<close> (lines 202-225). Each returns \<^verbatim>\<open>*this\<close>: the same
  object with \<^verbatim>\<open>t\<close> assigned. The named overloads store the pointer they are given
  (\<^verbatim>\<open>t\<close>, \<^verbatim>\<open>t.c_str()\<close>); no character is copied.
\<close>

fun ScLogger_type :: "va_args \<Rightarrow> ScLogger \<Rightarrow> ScLogger" where
  "ScLogger_type No_args lg = lg\<lparr>logger_t := None\<rparr>"
| "ScLogger_type (Cstr_arg t) lg = lg\<lparr>logger_t := t\<rparr>"
| "ScLogger_type (String_arg p) lg = lg\<lparr>logger_t := Some p\<rparr>"

text \<open>
  \<^verbatim>\<open>get()\<close> (line 231) returns the stream \<^verbatim>\<open>os\<close>; this is one write of the characters
  \<open>s\<close> through that reference.
\<close>

definition ScLogger_get_put :: "string \<Rightarrow> ScLogger \<Rightarrow> ScLogger" where
  "ScLogger_get_put s lg = lg\<lparr>logger_os := logger_os lg @ s\<rparr>"

text \<open>
  What can happen while a logger is alive: a call of \<^verbatim>\<open>type\<close>, a write, or a step of the
  surrounding program that changes storage (\<open>Store p (Some s)\<close>: the array at \<open>p\<close> now
  holds \<open>s\<close>; \<open>Store p None\<close>: the array at \<open>p\<close> dies). Each step takes and returns the
  world as well, so that what a step does to the sink is part of the model.
\<close>

datatype logger_op = Type va_args | Put string | Store addr "string option"

fun apply_op :: "ScLogger \<times> world \<Rightarrow> logger_op \<Rightarrow> ScLogger \<times> world" where
  "apply_op (lg, w) (Type a) = (ScLogger_type a lg, w)"
| "apply_op (lg, w) (Put s) = (ScLogger_get_put s lg, w)"
| "apply_op (lg, w) (Store p v) = (lg, w\<lparr>memory := (memory w)(p := v)\<rparr>)"

definition run_ops :: "logger_op list \<Rightarrow> ScLogger \<times> world \<Rightarrow> ScLogger \<times> world" where
  "run_ops ops st = foldl apply_op st ops"

text \<open>The life of one logger: constructed, operated on, destroyed.\<close>

definition ScLogger_life ::
  "sc_severity \<Rightarrow> string \<Rightarrow> int \<Rightarrow> int \<Rightarrow> logger_op list \<Rightarrow> world \<Rightarrow> world" where
  "ScLogger_life sev fl ln verbosity ops w =
     (case run_ops ops (ScLogger_ctor sev fl ln verbosity w) of
        (lg, w') \<Rightarrow> ScLogger_dtor lg w')"

text \<open>
  Three readings of a run: the texts written by its \<open>Put\<close> steps, in order; the storage
  after its \<open>Store\<close> steps; and whether it is free of calls of \<^verbatim>\<open>type\<close>.
\<close>

fun puts :: "logger_op list \<Rightarrow> string list" where
  "puts [] = []"
| "puts (Put s # ops) = s # puts ops"
| "puts (x # ops) = puts ops"

fun stores :: "logger_op list \<Rightarrow> (addr \<rightharpoonup> string) \<Rightarrow> (addr \<rightharpoonup> string)" where
  "stores [] m = m"
| "stores (Store p v # ops) m = stores ops (m(p := v))"
| "stores (x # ops) m = stores ops m"

fun no_type_call :: "logger_op list \<Rightarrow> bool" where
  "no_type_call [] = True"
| "no_type_call (Type a # ops) = False"
| "no_type_call (x # ops) = no_type_call ops"

section \<open>The logging macros (lines 245-267)\<close>

datatype macro = SCCTRACEALL | SCCTRACE | SCCDEBUG | SCCINFO | SCCWARN | SCCERR | SCCFATAL

text \<open>
  The argument of a macro is an expression. Either it denotes something that is there
  before and after the statement (nothing, a pointer, a \<^verbatim>\<open>std::string\<close> variable), or it
  builds a temporary \<^verbatim>\<open>std::string\<close> with characters \<open>s\<close>, as
  \<^verbatim>\<open>SCCWARN(std::string(40, 'B'))\<close> does; \<open>p\<close> is then the free address the temporary
  is given.
\<close>

datatype macro_args = Args va_args | Temp_string addr string

text \<open>
  \<^verbatim>\<open>::scc::get_log_verbosity(__VA_ARGS__)\<close>: the overload the arguments select. A
  temporary lives through the call.
\<close>

fun get_log_verbosity_va :: "world \<Rightarrow> macro_args \<Rightarrow> int" where
  "get_log_verbosity_va w (Args No_args) = get_log_verbosity w"
| "get_log_verbosity_va w (Args (Cstr_arg t)) = get_log_verbosity_cstr w t"
| "get_log_verbosity_va w (Args (String_arg p)) = get_log_verbosity_string w p"
| "get_log_verbosity_va w (Temp_string p s) =
     get_log_verbosity_string (w\<lparr>memory := (memory w)(p \<mapsto> s)\<rparr>) p"

text \<open>
  The expression each macro ends in,
  \<^verbatim>\<open>ScLogger<SEV>(__FILE__, __LINE__, V).type(__VA_ARGS__).get()\<close>, followed by the texts
  \<open>ws\<close> the statement writes with \<^verbatim>\<open><<\<close>. The macro names its arguments a second time
  here, so a temporary is built anew: after the logger, since the object a member
  function is called on is evaluated before the arguments of the call. Temporaries die
  at the end of the statement in the reverse order, the argument before the logger.
\<close>

fun stmt_ops :: "macro_args \<Rightarrow> string list \<Rightarrow> logger_op list" where
  "stmt_ops (Args a) ws = Type a # map Put ws"
| "stmt_ops (Temp_string p s) ws =
     Store p (Some s) # Type (String_arg p) # map Put ws @ [Store p None]"

definition logger_stmt ::
  "sc_severity \<Rightarrow> string \<Rightarrow> int \<Rightarrow> int \<Rightarrow> macro_args \<Rightarrow> string list \<Rightarrow> world \<Rightarrow> world" where
  "logger_stmt sev fl ln verbosity a ws w =
     ScLogger_life sev fl ln verbosity (stmt_ops a ws) w"

text \<open>
  A statement \<^verbatim>\<open>MACRO(args) << w1 << ... << wn;\<close> at line \<open>ln\<close> of file \<open>fl\<close>. The four
  tiered macros start with an \<^verbatim>\<open>if\<close>; the integer division by 10 is on positive
  constants.
\<close>

fun macro_stmt :: "macro \<Rightarrow> macro_args \<Rightarrow> string list \<Rightarrow> string \<Rightarrow> int \<Rightarrow> world \<Rightarrow> world" where
  "macro_stmt SCCTRACEALL a ws fl ln w =
     (if get_log_verbosity_va w a \<ge> SC_DEBUG
      then logger_stmt SC_INFO fl ln (SC_DEBUG div 10) a ws w else w)"
| "macro_stmt SCCTRACE a ws fl ln w =
     (if get_log_verbosity_va w a \<ge> SC_FULL
      then logger_stmt SC_INFO fl ln (SC_FULL div 10) a ws w else w)"
| "macro_stmt SCCDEBUG a ws fl ln w =
     (if get_log_verbosity_va w a \<ge> SC_HIGH
      then logger_stmt SC_INFO fl ln (SC_HIGH div 10) a ws w else w)"
| "macro_stmt SCCINFO a ws fl ln w =
     (if get_log_verbosity_va w a \<ge> SC_MEDIUM
      then logger_stmt SC_INFO fl ln (SC_MEDIUM div 10) a ws w else w)"
| "macro_stmt SCCWARN a ws fl ln w = logger_stmt SC_WARNING fl ln SC_MEDIUM a ws w"
| "macro_stmt SCCERR a ws fl ln w = logger_stmt SC_ERROR fl ln SC_MEDIUM a ws w"
| "macro_stmt SCCFATAL a ws fl ln w = logger_stmt SC_FATAL fl ln SC_MEDIUM a ws w"

text \<open>
  The words of the claims about the macros: the level a tiered macro asks for (the
  constant of its \<^verbatim>\<open>if\<close>), the category an argument names when the statement starts, and
  the effective level of a category (its own level if one is registered, else the global
  one).
\<close>

fun requested_level :: "macro \<Rightarrow> int option" where
  "requested_level SCCTRACEALL = Some SC_DEBUG"
| "requested_level SCCTRACE = Some SC_FULL"
| "requested_level SCCDEBUG = Some SC_HIGH"
| "requested_level SCCINFO = Some SC_MEDIUM"
| "requested_level m = None"

fun category_of :: "world \<Rightarrow> macro_args \<Rightarrow> string option" where
  "category_of w (Args No_args) = None"
| "category_of w (Args (Cstr_arg None)) = None"
| "category_of w (Args (Cstr_arg (Some p))) = Some (c_str (deref w p))"
| "category_of w (Args (String_arg p)) = Some (c_str (deref w p))"
| "category_of w (Temp_string p s) = Some (c_str s)"

definition effective_level :: "world \<Rightarrow> string option \<Rightarrow> int" where
  "effective_level w cat =
     (case cat of
        None \<Rightarrow> verbosity_level w
      | Some c \<Rightarrow> (case category_level w c of Some v \<Rightarrow> v | None \<Rightarrow> verbosity_level w))"

text \<open>
  An argument of \<^verbatim>\<open>type\<close> whose storage is alive: nothing, a null pointer, or a pointer
  to a live array.
\<close>

fun arg_alive :: "world \<Rightarrow> va_args \<Rightarrow> bool" where
  "arg_alive w No_args = True"
| "arg_alive w (Cstr_arg None) = True"
| "arg_alive w (Cstr_arg (Some p)) = (memory w p \<noteq> None)"
| "arg_alive w (String_arg p) = (memory w p \<noteq> None)"

section \<open>Stream redirection (lines 277-293)\<close>

text \<open>
  The class is declared in the header; its member functions are defined outside the
  sources. The state below holds the declared members (\<^verbatim>\<open>level\<close>, \<^verbatim>\<open>old_buf\<close>, the
  characters of the \<^verbatim>\<open>std::stringbuf\<close> base) and, of the target stream \<^verbatim>\<open>os\<close>, the buffer
  it currently writes to. A stream buffer is known by a number. \<open>forwarded\<close> lists the log
  records handed on, \<open>restored\<close> the buffers put back into the target stream.
\<close>

type_synonym streambuf = nat

record line_record =
  lr_level :: log
  lr_category :: "string option"
  lr_text :: string

record stream_redirection =
  os_rdbuf :: streambuf
  own_buf :: streambuf
  red_level :: log
  old_buf :: "streambuf option"
  pending :: string
  forwarded :: "line_record list"
  restored :: "streambuf list"

text \<open>
  Modelled from the spec: the constructor \<^verbatim>\<open>stream_redirection(os, level)\<close>, defined
  outside the sources. "captures the stream's current backing buffer [...], installs its
  own intercepting buffer".
\<close>

definition stream_redirection_ctor :: "streambuf \<Rightarrow> streambuf \<Rightarrow> log \<Rightarrow> stream_redirection" where
  "stream_redirection_ctor cur own lvl =
     \<lparr>os_rdbuf = own, own_buf = own, red_level = lvl, old_buf = Some cur, pending = [],
      forwarded = [], restored = []\<rparr>"

text \<open>
  Modelled from the spec: forwarding, defined outside the sources. "the buffered content
  up to that point is forwarded as one log record at the session's fixed level with a
  null/default category".
\<close>

definition forward :: "stream_redirection \<Rightarrow> stream_redirection" where
  "forward r =
     r\<lparr>forwarded := forwarded r @
         [\<lparr>lr_level = red_level r, lr_category = None, lr_text = pending r\<rparr>],
       pending := []\<rparr>"

text \<open>
  Modelled from the spec: \<^verbatim>\<open>xsputn\<close>, defined outside the sources. "buffers incoming
  characters; whenever a newline is seen [...] the buffered content up to that point is
  forwarded as one log record [...]; partial (no-newline) trailing content remains
  buffered until the next flush or newline".
\<close>

fun xsputn :: "string \<Rightarrow> stream_redirection \<Rightarrow> stream_redirection" where
  "xsputn [] r = r"
| "xsputn (c # cs) r =
     xsputn cs (if c = CHR 0x0A then forward r else r\<lparr>pending := pending r @ [c]\<rparr>)"

text \<open>
  Modelled from the spec: \<^verbatim>\<open>sync\<close>, the explicit flush request, defined outside the
  sources. It forwards the partial content; the spec names no record for a flush that
  finds nothing buffered, and none is forwarded here.
\<close>

definition sync :: "stream_redirection \<Rightarrow> stream_redirection" where
  "sync r = (if pending r = [] then r else forward r)"

text \<open>
  Modelled from the spec: \<^verbatim>\<open>reset\<close>, defined outside the sources. "restores the target
  stream's original buffer [...]. Must be safe to call multiple times (idempotent)"; a
  partial line is delivered when "\<^verbatim>\<open>reset()\<close>/flush is invoked". The member \<^verbatim>\<open>old_buf\<close> is
  null when there is nothing to restore.
\<close>

definition reset :: "stream_redirection \<Rightarrow> stream_redirection" where
  "reset r =
     (case old_buf r of
        None \<Rightarrow> r
      | Some b \<Rightarrow> (sync r)\<lparr>os_rdbuf := b, old_buf := None, restored := restored r @ [b]\<rparr>)"

text \<open>
  Modelled from the spec: the destructor, defined outside the sources. \<^verbatim>\<open>reset\<close> is
  "automatically invoked on destruction if not already done".
\<close>

definition stream_redirection_dtor :: "stream_redirection \<Rightarrow> stream_redirection" where
  "stream_redirection_dtor r = reset r"

text \<open>
  Modelled from the spec: a write of the characters \<open>cs\<close> to the target stream, and a
  flush of it. They reach the redirection while its buffer is the one installed; "after
  this call [\<^verbatim>\<open>reset\<close>], intercepted writes no longer occur".
\<close>

definition os_write :: "string \<Rightarrow> stream_redirection \<Rightarrow> stream_redirection" where
  "os_write cs r = (if os_rdbuf r = own_buf r then xsputn cs r else r)"

definition os_flush :: "stream_redirection \<Rightarrow> stream_redirection" where
  "os_flush r = (if os_rdbuf r = own_buf r then sync r else r)"

section \<open>Properties of the level utilities\<close>

lemma as_log_table:
  "as_log 0 = Inr NONE" "as_log 1 = Inr FATAL" "as_log 2 = Inr ERROR" "as_log 3 = Inr WARNING"
  "as_log 4 = Inr INFO" "as_log 5 = Inr DEBUG" "as_log 6 = Inr TRACE" "as_log 7 = Inr TRACEALL"
  by (simp_all add: as_log_def as_log_m_def)

lemma as_log_log_to_int: "as_log (log_to_int v) = Inr v"
  by (cases v) (simp_all add: as_log_table)

lemma log_to_int_as_log_m: "n < length as_log_m \<Longrightarrow> log_to_int (as_log_m ! n) = int n"
  by (auto simp: as_log_m_def nth_Cons split: nat.splits)

lemma as_log_in_range:
  assumes "0 \<le> i" "i \<le> 7"
  shows "\<exists>v. as_log i = Inr v \<and> log_to_int v = i"
proof -
  from assms have n: "nat i < length as_log_m"
    by (simp add: as_log_m_def)
  with assms have "as_log i = Inr (as_log_m ! nat i)"
    by (simp add: as_log_def)
  moreover from n assms have "log_to_int (as_log_m ! nat i) = i"
    by (simp add: log_to_int_as_log_m)
  ultimately show ?thesis
    by blast
qed

text \<open>
  Claim C10. For every integer \<open>i\<close> with \<open>0 \<le> i \<le> 7\<close>, \<^verbatim>\<open>as_log(i)\<close> returns a level (the
  assertion holds and \<^verbatim>\<open>m\<close> is read inside its bounds), and that level is the one whose
  integer value is \<open>i\<close>; going the other way, \<^verbatim>\<open>as_log\<close> of a level's integer value is the
  level.
\<close>

theorem as_log_inverse_of_cast:
  "(0 \<le> i \<and> i \<le> 7 \<longrightarrow> nat i < length as_log_m \<and> (\<exists>v. as_log i = Inr v \<and> log_to_int v = i))
   \<and> as_log (log_to_int l) = Inr l"
proof -
  have "nat i < length as_log_m" if "0 \<le> i" "i \<le> 7"
    using that by (simp add: as_log_m_def)
  then show ?thesis
    using as_log_in_range [of i] as_log_log_to_int [of l] by blast
qed

theorem as_log_inverse_of_cast_witness:
  "(0::int) \<le> 5 \<and> (5::int) \<le> 7 \<and> as_log 5 = Inr DEBUG \<and> log_to_int DEBUG = 5
   \<and> as_log (log_to_int TRACE) = Inr TRACE"
proof -
  from as_log_inverse_of_cast [of 5 TRACE]
  obtain v where "as_log 5 = Inr v" "log_to_int v = 5" "as_log (log_to_int TRACE) = Inr TRACE"
    by auto
  moreover from this have "v = DEBUG"
    by (cases v) simp_all
  ultimately show ?thesis
    by simp
qed

subsection \<open>Formatting and parsing\<close>

lemma operator_extract_loop_miss:
  "c_str buf \<notin> set buffer \<Longrightarrow> operator_extract_loop i buf val = Inr val"
proof (induction i buf val rule: operator_extract_loop.induct)
  case (1 i buf val)
  show ?case
  proof (cases "i \<le> nat (log_to_int TRACEALL)")
    case True
    then have "i < length buffer"
      by (simp add: buffer_def)
    then have "buffer ! i \<in> set buffer"
      by simp
    with "1.prems" have "c_str buf \<noteq> buffer ! i"
      by metis
    with True "1.IH" "1.prems" show ?thesis
      by (subst operator_extract_loop.simps) simp
  next
    case False
    then show ?thesis
      by (subst operator_extract_loop.simps) simp
  qed
qed

lemma extract_string_name:
  "extract_string (istringstream (buffer ! nat (log_to_int v))) =
     (\<lparr>chars = [], eofbit = True, failbit = False, badbit = False\<rparr>,
      buffer ! nat (log_to_int v))"
  by (cases v) (simp_all add: extract_string_def istringstream_def buffer_def isspace_def)

lemma operator_extract_loop_name:
  "operator_extract_loop 0 (buffer ! nat (log_to_int v)) val = Inr v"
  by (cases v) (simp_all add: operator_extract_loop.simps buffer_def c_str_def as_log_table)

lemma operator_insert_name:
  "operator_insert os v = os @
     (case v of NONE \<Rightarrow> ''NONE'' | FATAL \<Rightarrow> ''FATAL'' | ERROR \<Rightarrow> ''ERROR''
      | WARNING \<Rightarrow> ''WARNING'' | INFO \<Rightarrow> ''INFO'' | DEBUG \<Rightarrow> ''DEBUG'' | TRACE \<Rightarrow> ''TRACE''
      | TRACEALL \<Rightarrow> ''TRACEALL'')"
  by (cases v) (simp_all add: operator_insert_def buffer_def)

text \<open>
  Claim C4. For every value of the enumeration, \<^verbatim>\<open>operator<<\<close> writes its name in capital
  letters, and \<^verbatim>\<open>operator>>\<close> applied to a stream holding that text stores the same value,
  whatever the variable held before; the stream is left at its end with no failure.
\<close>

theorem format_parse_roundtrip:
  "operator_insert os v = os @
     (case v of NONE \<Rightarrow> ''NONE'' | FATAL \<Rightarrow> ''FATAL'' | ERROR \<Rightarrow> ''ERROR''
      | WARNING \<Rightarrow> ''WARNING'' | INFO \<Rightarrow> ''INFO'' | DEBUG \<Rightarrow> ''DEBUG'' | TRACE \<Rightarrow> ''TRACE''
      | TRACEALL \<Rightarrow> ''TRACEALL'')
   \<and> operator_extract (istringstream (operator_insert [] v)) val =
       Inr (\<lparr>chars = [], eofbit = True, failbit = False, badbit = False\<rparr>, v)"
proof -
  have "operator_insert [] v = buffer ! nat (log_to_int v)"
    by (simp add: operator_insert_def)
  then have "operator_extract (istringstream (operator_insert [] v)) val =
      Inr (\<lparr>chars = [], eofbit = True, failbit = False, badbit = False\<rparr>, v)"
    by (simp add: operator_extract_def extract_string_name operator_extract_loop_name)
  with operator_insert_name [of os v] show ?thesis
    by simp
qed

theorem format_parse_roundtrip_witness:
  "operator_insert [] TRACE = ''TRACE''
   \<and> operator_extract (istringstream (operator_insert [] TRACE)) NONE =
       Inr (\<lparr>chars = [], eofbit = True, failbit = False, badbit = False\<rparr>, TRACE)"
  using format_parse_roundtrip [of "[]" TRACE NONE]
  by (simp add: operator_insert_def buffer_def)

text \<open>
  Claim C5, as stated, fails. The token \<^verbatim>\<open>INFO\<close> followed by a NUL character and \<^verbatim>\<open>x\<close> is
  not one of the eight names, yet \<^verbatim>\<open>strcmp\<close> reads it as \<^verbatim>\<open>INFO\<close> and the value changes
  from \<^verbatim>\<open>NONE\<close> to \<^verbatim>\<open>INFO\<close>. And after the unknown token \<^verbatim>\<open>foo\<close> the value is unchanged
  but the stream carries no failure: its \<^verbatim>\<open>failbit\<close> is clear.
\<close>

theorem operator_extract_unknown_counterexample:
  "snd (extract_string (istringstream (''INFO'' @ [CHR 0x00, CHR ''x'']))) =
     ''INFO'' @ [CHR 0x00, CHR ''x'']
   \<and> ''INFO'' @ [CHR 0x00, CHR ''x''] \<notin> set buffer
   \<and> operator_extract (istringstream (''INFO'' @ [CHR 0x00, CHR ''x''])) NONE =
       Inr (\<lparr>chars = [], eofbit = True, failbit = False, badbit = False\<rparr>, INFO)
   \<and> INFO \<noteq> NONE
   \<and> operator_extract (istringstream ''foo'') WARNING =
       Inr (\<lparr>chars = [], eofbit = True, failbit = False, badbit = False\<rparr>, WARNING)"
  by (simp add: operator_extract_def extract_string_def istringstream_def isspace_def
      operator_extract_loop.simps buffer_def c_str_def as_log_table)

text \<open>
  Claim C5, amended. Whenever the token read from the stream, cut before its first NUL
  character, is not one of the eight names, \<^verbatim>\<open>operator>>\<close> raises nothing, leaves the value
  as it was and returns the stream exactly as the extraction of the token left it. The
  search for the name never touches the stream's state, so \<^verbatim>\<open>failbit\<close> is set only when
  no token could be read.
\<close>

theorem operator_extract_unknown:
  assumes "c_str (snd (extract_string istr)) \<notin> set buffer"
  shows "operator_extract istr val = Inr (fst (extract_string istr), val)"
proof -
  obtain istr' buf where e: "extract_string istr = (istr', buf)"
    by (cases "extract_string istr")
  with assms have "operator_extract_loop 0 buf val = Inr val"
    by (simp add: operator_extract_loop_miss)
  with e show ?thesis
    by (simp add: operator_extract_def)
qed

theorem operator_extract_unknown_witness:
  "c_str (snd (extract_string (istringstream ''info''))) \<notin> set buffer
   \<and> operator_extract (istringstream ''info'') WARNING =
       Inr (\<lparr>chars = [], eofbit = True, failbit = False, badbit = False\<rparr>, WARNING)"
proof -
  have e: "extract_string (istringstream ''info'') =
      (\<lparr>chars = [], eofbit = True, failbit = False, badbit = False\<rparr>, ''info'')"
    by (simp add: extract_string_def istringstream_def isspace_def)
  have h: "c_str (snd (extract_string (istringstream ''info''))) \<notin> set buffer"
    by (simp add: e c_str_def buffer_def)
  from operator_extract_unknown [OF h, of WARNING] h e show ?thesis
    by simp
qed

section \<open>Properties of the logger\<close>

lemma c_str_SystemC: "c_str ''SystemC'' = ''SystemC''"
  by (simp add: c_str_def)

lemma c_str_no_nul: "CHR 0x00 \<notin> set s \<Longrightarrow> c_str s = s"
  by (auto simp: c_str_def)

lemma deref_live: "memory w p = Some s \<Longrightarrow> deref w p = s"
  by (simp add: deref_def)

lemma apply_op_world:
  "snd (apply_op (lg, w) x) = w\<lparr>memory := stores [x] (memory w)\<rparr>"
  by (cases x) simp_all

lemma stores_append: "stores (xs @ ys) m = stores ys (stores xs m)"
proof (induction xs arbitrary: m)
  case Nil
  show ?case by simp
next
  case (Cons x xs)
  show ?case
  proof (cases x)
    case (Store p v)
    with Cons [of "m(p := v)"] show ?thesis by (simp del: fun_upd_apply)
  qed (simp_all add: Cons)
qed

lemma run_ops_world: "snd (run_ops ops (lg, w)) = w\<lparr>memory := stores ops (memory w)\<rparr>"
  unfolding run_ops_def
proof (induction ops arbitrary: lg w)
  case Nil
  show ?case by simp
next
  case (Cons x ops)
  show ?case
  proof (cases x)
    case (Store p v)
    with Cons [of lg "w\<lparr>memory := (memory w)(p := v)\<rparr>"] show ?thesis
      by (simp del: fun_upd_apply)
  qed (simp_all add: Cons)
qed

lemma run_ops_os:
  "logger_os (fst (run_ops ops (lg, w))) = logger_os lg @ concat (puts ops)"
  unfolding run_ops_def
proof (induction ops arbitrary: lg w)
  case Nil
  show ?case by simp
next
  case (Cons x ops)
  show ?case
  proof (cases x)
    case (Type a)
    then show ?thesis
      using Cons [of "ScLogger_type a lg" w] by (cases a) simp_all
  next
    case (Put s)
    then show ?thesis
      using Cons [of "ScLogger_get_put s lg" w] by (simp add: ScLogger_get_put_def)
  next
    case (Store p v)
    then show ?thesis
      by (simp add: Cons)
  qed
qed

lemma apply_op_frame:
  "logger_SEVERITY (fst (apply_op (lg, w) x)) = logger_SEVERITY lg"
  "logger_file (fst (apply_op (lg, w) x)) = logger_file lg"
  "logger_line (fst (apply_op (lg, w) x)) = logger_line lg"
  "logger_level (fst (apply_op (lg, w) x)) = logger_level lg"
  by (cases x; (rename_tac a, case_tac a)?; simp add: ScLogger_get_put_def)+

lemma run_ops_frame:
  "logger_SEVERITY (fst (run_ops ops (lg, w))) = logger_SEVERITY lg \<and>
   logger_file (fst (run_ops ops (lg, w))) = logger_file lg \<and>
   logger_line (fst (run_ops ops (lg, w))) = logger_line lg \<and>
   logger_level (fst (run_ops ops (lg, w))) = logger_level lg"
  unfolding run_ops_def
proof (induction ops arbitrary: lg w)
  case Nil
  show ?case by simp
next
  case (Cons x ops)
  obtain lg' w' where "apply_op (lg, w) x = (lg', w')"
    by (cases "apply_op (lg, w) x")
  with apply_op_frame [of lg w x] Cons [of lg' w'] show ?case
    by simp
qed

lemma run_ops_no_type_t:
  "no_type_call ops \<Longrightarrow> logger_t (fst (run_ops ops (lg, w))) = logger_t lg"
  unfolding run_ops_def
proof (induction ops arbitrary: lg w)
  case Nil
  show ?case by simp
next
  case (Cons x ops)
  then show ?case
    by (cases x) (simp_all add: ScLogger_get_put_def)
qed

lemma run_ops_append: "run_ops (xs @ ys) st = run_ops ys (run_ops xs st)"
  by (simp add: run_ops_def)

lemma puts_append: "puts (xs @ ys) = puts xs @ puts ys"
  by (induction xs rule: puts.induct) simp_all

lemma puts_map_Put: "puts (map Put ws) = ws"
  by (induction ws) simp_all

lemma stores_map_Put: "stores (map Put ws) m = m"
  by (induction ws) simp_all

lemma no_type_call_map_Put: "no_type_call (map Put ws)"
  by (induction ws) simp_all

lemma ScLogger_type_t:
  "logger_t (ScLogger_type a lg) =
     (case a of No_args \<Rightarrow> None | Cstr_arg t \<Rightarrow> t | String_arg p \<Rightarrow> Some p)"
  by (cases a) simp_all

lemma run_ops_last_type:
  assumes "no_type_call rest"
  shows "logger_t (fst (run_ops (ops @ Type a # rest) st)) =
     (case a of No_args \<Rightarrow> None | Cstr_arg t \<Rightarrow> t | String_arg p \<Rightarrow> Some p)"
proof -
  obtain lg w where st: "run_ops ops st = (lg, w)"
    by (cases "run_ops ops st")
  have "run_ops (ops @ Type a # rest) st = run_ops rest (ScLogger_type a lg, w)"
    by (simp add: run_ops_append st) (simp add: run_ops_def)
  with assms show ?thesis
    by (simp add: run_ops_no_type_t ScLogger_type_t)
qed

lemma ScLogger_dtor_delivered:
  "delivered (ScLogger_dtor lg w) = delivered w @
     [\<lparr>rep_severity = logger_SEVERITY lg,
       rep_msg_type = (case logger_t lg of None \<Rightarrow> ''SystemC'' | Some p \<Rightarrow> c_str (deref w p)),
       rep_msg = c_str (logger_os lg), rep_verbosity = logger_level lg,
       rep_file = c_str (logger_file lg), rep_line = logger_line lg\<rparr>]"
  by (cases "logger_t lg")
    (simp_all add: ScLogger_dtor_def sc_report_handler_report_def c_str_SystemC)

lemma ScLogger_life_eq:
  "ScLogger_life sev fl ln v ops w =
     w\<lparr>memory := stores ops (memory w),
       delivered := delivered w @
         [\<lparr>rep_severity = sev,
           rep_msg_type = (case logger_t (fst (run_ops ops (ScLogger_ctor sev fl ln v w))) of
                             None \<Rightarrow> ''SystemC''
                           | Some p \<Rightarrow> c_str (deref (w\<lparr>memory := stores ops (memory w)\<rparr>) p)),
           rep_msg = c_str (concat (puts ops)), rep_verbosity = v,
           rep_file = c_str fl, rep_line = ln\<rparr>],
       constructed := constructed w + 1\<rparr>"
proof -
  let ?c = "ScLogger_ctor sev fl ln v w"
  obtain lg w' where r: "run_ops ops ?c = (lg, w')"
    by (cases "run_ops ops ?c")
  have w': "w' = w\<lparr>constructed := constructed w + 1, memory := stores ops (memory w)\<rparr>"
    using run_ops_world [of ops "fst ?c" "snd ?c"] r by (simp add: ScLogger_ctor_def)
  have f: "logger_SEVERITY lg = sev" "logger_file lg = fl" "logger_line lg = ln"
    "logger_level lg = v"
    using run_ops_frame [of ops "fst ?c" "snd ?c"] r by (simp_all add: ScLogger_ctor_def)
  have os: "logger_os lg = concat (puts ops)"
    using run_ops_os [of ops "fst ?c" "snd ?c"] r by (simp add: ScLogger_ctor_def)
  show ?thesis
    by (cases "logger_t lg")
      (simp_all add: ScLogger_life_def r ScLogger_dtor_def sc_report_handler_report_def w' f os
        c_str_SystemC deref_def split: option.split)
qed

lemma ScLogger_life_delivered:
  "delivered (ScLogger_life sev fl ln v ops w) = delivered w @
     [\<lparr>rep_severity = sev,
       rep_msg_type = (case logger_t (fst (run_ops ops (ScLogger_ctor sev fl ln v w))) of
                         None \<Rightarrow> ''SystemC''
                       | Some p \<Rightarrow> c_str (deref (w\<lparr>memory := stores ops (memory w)\<rparr>) p)),
       rep_msg = c_str (concat (puts ops)), rep_verbosity = v,
       rep_file = c_str fl, rep_line = ln\<rparr>]"
  by (simp add: ScLogger_life_eq)

lemma ScLogger_life_constructed:
  "constructed (ScLogger_life sev fl ln v ops w) = constructed w + 1"
  by (simp add: ScLogger_life_eq)

lemma ScLogger_life_puts:
  "ScLogger_life sev fl ln v (map Put ws) w =
     w\<lparr>delivered := delivered w @
         [\<lparr>rep_severity = sev, rep_msg_type = ''SystemC'', rep_msg = c_str (concat ws),
           rep_verbosity = v, rep_file = c_str fl, rep_line = ln\<rparr>],
       constructed := constructed w + 1\<rparr>"
proof -
  have "logger_t (fst (run_ops (map Put ws) (ScLogger_ctor sev fl ln v w))) = None"
    using run_ops_no_type_t [of "map Put ws" "fst (ScLogger_ctor sev fl ln v w)"
        "snd (ScLogger_ctor sev fl ln v w)"]
    by (simp add: ScLogger_ctor_def no_type_call_map_Put)
  then show ?thesis
    by (simp add: ScLogger_life_eq puts_map_Put stores_map_Put)
qed

lemma stores_Type: "stores (ops @ Type a # rest) m = stores (ops @ rest) m"
  by (simp add: stores_append)

lemma puts_Type: "puts (ops @ Type a # rest) = puts (ops @ rest)"
  by (simp add: puts_append)

text \<open>
  Claim C3, as stated, fails. The destructor hands the text over as
  \<^verbatim>\<open>os.str().c_str()\<close>, a \<^verbatim>\<open>const char*\<close>: after the three writes \<^verbatim>\<open>a\<close>, a NUL character
  and \<^verbatim>\<open>b\<close>, the one record delivered has the text \<^verbatim>\<open>a\<close>, not the three characters
  written.
\<close>

theorem single_flush_counterexample:
  "delivered (ScLogger_life SC_INFO ''a.cpp'' 1 20 (map Put [''a'', [CHR 0x00], ''b''])
      \<lparr>verbosity_level = 200, category_level = Map.empty, memory = Map.empty,
        residue = (\<lambda>p. []), delivered = [], constructed = 0\<rparr>) =
     [\<lparr>rep_severity = SC_INFO, rep_msg_type = ''SystemC'', rep_msg = ''a'', rep_verbosity = 20,
       rep_file = ''a.cpp'', rep_line = 1\<rparr>]
   \<and> concat [''a'', [CHR 0x00], ''b''] \<noteq> ''a''"
  by (simp add: ScLogger_life_def run_ops_def ScLogger_ctor_def ScLogger_get_put_def
      ScLogger_dtor_def sc_report_handler_report_def c_str_def)

text \<open>
  Claim C3, amended. For every list of writes, constructing a logger, making the writes
  and destroying it delivers exactly one record, whose text is the concatenation of the
  writes in order, cut before its first NUL character (so the whole concatenation when no
  NUL was written). The same holds when calls of \<^verbatim>\<open>type\<close> are mixed with the writes. The
  constructor delivers nothing, and no run of \<^verbatim>\<open>type\<close> calls and writes does.
\<close>

theorem single_flush:
  "delivered (ScLogger_life sev fl ln v (map Put ws) w) = delivered w @
     [\<lparr>rep_severity = sev, rep_msg_type = ''SystemC'', rep_msg = c_str (concat ws),
       rep_verbosity = v, rep_file = c_str fl, rep_line = ln\<rparr>]
   \<and> (CHR 0x00 \<notin> set (concat ws) \<longrightarrow> c_str (concat ws) = concat ws)
   \<and> (\<exists>cat. delivered (ScLogger_life sev fl ln v ops w) = delivered w @
         [\<lparr>rep_severity = sev, rep_msg_type = cat, rep_msg = c_str (concat (puts ops)),
           rep_verbosity = v, rep_file = c_str fl, rep_line = ln\<rparr>])
   \<and> delivered (snd (ScLogger_ctor sev fl ln v w)) = delivered w
   \<and> delivered (snd (run_ops ops (lg, w))) = delivered w"
proof -
  have "delivered (snd (ScLogger_ctor sev fl ln v w)) = delivered w"
    by (simp add: ScLogger_ctor_def)
  moreover have "delivered (snd (run_ops ops (lg, w))) = delivered w"
    by (simp add: run_ops_world)
  moreover have "\<exists>cat. delivered (ScLogger_life sev fl ln v ops w) = delivered w @
         [\<lparr>rep_severity = sev, rep_msg_type = cat, rep_msg = c_str (concat (puts ops)),
           rep_verbosity = v, rep_file = c_str fl, rep_line = ln\<rparr>]"
    by (simp add: ScLogger_life_delivered)
  ultimately show ?thesis
    by (simp add: ScLogger_life_puts c_str_no_nul)
qed

theorem single_flush_witness:
  "delivered (ScLogger_life SC_WARNING ''a.cpp'' 3 200 (map Put [''x = '', ''42''])
      \<lparr>verbosity_level = 200, category_level = Map.empty, memory = Map.empty,
        residue = (\<lambda>p. []), delivered = [], constructed = 0\<rparr>) =
     [\<lparr>rep_severity = SC_WARNING, rep_msg_type = ''SystemC'', rep_msg = ''x = 42'',
       rep_verbosity = 200, rep_file = ''a.cpp'', rep_line = 3\<rparr>]
   \<and> CHR 0x00 \<notin> set (concat [''x = '', ''42''])
   \<and> c_str (concat [''x = '', ''42'']) = concat [''x = '', ''42'']"
  using single_flush [of SC_WARNING "''a.cpp''" 3 200 "[''x = '', ''42'']"
      "\<lparr>verbosity_level = 200, category_level = Map.empty, memory = Map.empty,
        residue = (\<lambda>p. []), delivered = [], constructed = 0\<rparr>"
      "[]"]
  by (simp add: c_str_def)

text \<open>
  Claim C8, as stated, fails. A logger whose tag was set with \<^verbatim>\<open>type(s)\<close>, where the
  \<^verbatim>\<open>std::string s\<close> holds \<^verbatim>\<open>BU\<close>, a NUL character and \<^verbatim>\<open>S\<close> and is alive when the logger
  dies, delivers the category \<^verbatim>\<open>BU\<close>: the tag is kept as a \<^verbatim>\<open>char*\<close> and read as a C
  string.
\<close>

theorem category_fallback_counterexample:
  "memory \<lparr>verbosity_level = 200, category_level = Map.empty,
            memory = [5 \<mapsto> ''BU'' @ [CHR 0x00, CHR ''S'']], residue = (\<lambda>p. []),
            delivered = [], constructed = 1\<rparr> 5 = Some (''BU'' @ [CHR 0x00, CHR ''S''])
   \<and> delivered (ScLogger_dtor
        (ScLogger_type (String_arg 5)
          \<lparr>logger_SEVERITY = SC_INFO, logger_os = [], logger_t = None, logger_file = ''a.cpp'',
            logger_line = 1, logger_level = 20\<rparr>)
        \<lparr>verbosity_level = 200, category_level = Map.empty,
          memory = [5 \<mapsto> ''BU'' @ [CHR 0x00, CHR ''S'']], residue = (\<lambda>p. []),
          delivered = [], constructed = 1\<rparr>) =
       [\<lparr>rep_severity = SC_INFO, rep_msg_type = ''BU'', rep_msg = [], rep_verbosity = 20,
         rep_file = ''a.cpp'', rep_line = 1\<rparr>]
   \<and> ''BU'' \<noteq> ''BU'' @ [CHR 0x00, CHR ''S'']"
  by (simp add: ScLogger_dtor_def sc_report_handler_report_def deref_def c_str_def)

text \<open>
  Claim C8, amended. The destructor delivers one record. When the member \<^verbatim>\<open>t\<close> is null at
  that moment (after the constructor, after \<^verbatim>\<open>type()\<close>, after \<^verbatim>\<open>type\<close> of a null
  pointer; writes do not change \<^verbatim>\<open>t\<close>), the record's category is the fixed name
  \<^verbatim>\<open>SystemC\<close>. \<^verbatim>\<open>type(name)\<close> stores the pointer it is given, for both named overloads,
  and the record then carries the C string found at that pointer when the logger dies:
  if the storage is still alive and holds the characters \<open>cs\<close>, the category is \<open>cs\<close> cut
  before its first NUL, so exactly \<open>cs\<close> when it holds none. Nothing is said of a pointer
  whose storage has died.
\<close>

theorem category_fallback:
  "(\<exists>r. delivered (ScLogger_dtor lg w) = delivered w @ [r]
        \<and> rep_msg_type r =
            (case logger_t lg of None \<Rightarrow> ''SystemC'' | Some q \<Rightarrow> c_str (deref w q)))
   \<and> logger_t (fst (ScLogger_ctor sev fl ln v w)) = None
   \<and> logger_t (ScLogger_type No_args lg) = None
   \<and> logger_t (ScLogger_type (Cstr_arg t) lg) = t
   \<and> logger_t (ScLogger_type (String_arg p) lg) = Some p
   \<and> logger_t (ScLogger_get_put s lg) = logger_t lg
   \<and> (memory w p = Some cs \<longrightarrow>
        (\<exists>r. delivered (ScLogger_dtor (ScLogger_type (Cstr_arg (Some p)) lg) w) =
                delivered w @ [r] \<and> rep_msg_type r = c_str cs)
        \<and> (\<exists>r. delivered (ScLogger_dtor (ScLogger_type (String_arg p) lg) w) =
                delivered w @ [r] \<and> rep_msg_type r = c_str cs)
        \<and> (CHR 0x00 \<notin> set cs \<longrightarrow> c_str cs = cs))"
  by (simp add: ScLogger_dtor_delivered ScLogger_ctor_def ScLogger_get_put_def deref_live
      c_str_no_nul)

theorem category_fallback_witness:
  "memory \<lparr>verbosity_level = 200, category_level = Map.empty, memory = [5 \<mapsto> ''BUS''],
            residue = (\<lambda>p. []), delivered = [], constructed = 1\<rparr> 5 = Some ''BUS''
   \<and> CHR 0x00 \<notin> set ''BUS''
   \<and> delivered (ScLogger_dtor
        (ScLogger_type (Cstr_arg (Some 5))
          \<lparr>logger_SEVERITY = SC_ERROR, logger_os = [], logger_t = None, logger_file = ''a.cpp'',
            logger_line = 9, logger_level = 200\<rparr>)
        \<lparr>verbosity_level = 200, category_level = Map.empty, memory = [5 \<mapsto> ''BUS''],
          residue = (\<lambda>p. []), delivered = [], constructed = 1\<rparr>) =
       [\<lparr>rep_severity = SC_ERROR, rep_msg_type = ''BUS'', rep_msg = [], rep_verbosity = 200,
         rep_file = ''a.cpp'', rep_line = 9\<rparr>]
   \<and> delivered (ScLogger_dtor
        (ScLogger_type No_args (ScLogger_type (Cstr_arg (Some 5))
          \<lparr>logger_SEVERITY = SC_ERROR, logger_os = [], logger_t = None, logger_file = ''a.cpp'',
            logger_line = 9, logger_level = 200\<rparr>))
        \<lparr>verbosity_level = 200, category_level = Map.empty, memory = [5 \<mapsto> ''BUS''],
          residue = (\<lambda>p. []), delivered = [], constructed = 1\<rparr>) =
       [\<lparr>rep_severity = SC_ERROR, rep_msg_type = ''SystemC'', rep_msg = [], rep_verbosity = 200,
         rep_file = ''a.cpp'', rep_line = 9\<rparr>]"
  using category_fallback [of
      "\<lparr>logger_SEVERITY = SC_ERROR, logger_os = [], logger_t = None, logger_file = ''a.cpp'',
        logger_line = 9, logger_level = 200\<rparr>"
      "\<lparr>verbosity_level = 200, category_level = Map.empty, memory = [5 \<mapsto> ''BUS''],
        residue = (\<lambda>p. []), delivered = [], constructed = 1\<rparr>"
      SC_ERROR "''a.cpp''" 9 200 "Some 5" 5 "[]" "''BUS''"]
  by (simp add: ScLogger_dtor_def sc_report_handler_report_def deref_def c_str_def)

text \<open>
  Claim C9, as stated, fails: the last call does not decide the category alone, and the
  category is not always the argument. With \<^verbatim>\<open>BUS\<close> stored at the pointer given to the
  last call, the record carries \<^verbatim>\<open>BUS\<close>; when the same storage is overwritten with
  \<^verbatim>\<open>CPU\<close> after that call, the same call delivers \<^verbatim>\<open>CPU\<close>. A last call with a
  \<^verbatim>\<open>std::string\<close> holding \<^verbatim>\<open>BU\<close>, NUL, \<^verbatim>\<open>S\<close> delivers \<^verbatim>\<open>BU\<close>, and a last call with a null
  pointer delivers \<^verbatim>\<open>SystemC\<close>.
\<close>

theorem type_last_call_wins_counterexample:
  "delivered (ScLogger_life SC_INFO ''a.cpp'' 1 20 [Type (Cstr_arg (Some 5))]
      \<lparr>verbosity_level = 200, category_level = Map.empty,
        memory = [5 \<mapsto> ''BUS'', 6 \<mapsto> ''BU'' @ [CHR 0x00, CHR ''S'']], residue = (\<lambda>p. []),
        delivered = [], constructed = 0\<rparr>) =
     [\<lparr>rep_severity = SC_INFO, rep_msg_type = ''BUS'', rep_msg = [], rep_verbosity = 20,
       rep_file = ''a.cpp'', rep_line = 1\<rparr>]
   \<and> delivered (ScLogger_life SC_INFO ''a.cpp'' 1 20
        [Type (Cstr_arg (Some 5)), Store 5 (Some ''CPU'')]
      \<lparr>verbosity_level = 200, category_level = Map.empty,
        memory = [5 \<mapsto> ''BUS'', 6 \<mapsto> ''BU'' @ [CHR 0x00, CHR ''S'']], residue = (\<lambda>p. []),
        delivered = [], constructed = 0\<rparr>) =
     [\<lparr>rep_severity = SC_INFO, rep_msg_type = ''CPU'', rep_msg = [], rep_verbosity = 20,
       rep_file = ''a.cpp'', rep_line = 1\<rparr>]
   \<and> ''CPU'' \<noteq> ''BUS''
   \<and> delivered (ScLogger_life SC_INFO ''a.cpp'' 1 20 [Type (String_arg 6)]
      \<lparr>verbosity_level = 200, category_level = Map.empty,
        memory = [5 \<mapsto> ''BUS'', 6 \<mapsto> ''BU'' @ [CHR 0x00, CHR ''S'']], residue = (\<lambda>p. []),
        delivered = [], constructed = 0\<rparr>) =
     [\<lparr>rep_severity = SC_INFO, rep_msg_type = ''BU'', rep_msg = [], rep_verbosity = 20,
       rep_file = ''a.cpp'', rep_line = 1\<rparr>]
   \<and> ''BU'' \<noteq> ''BU'' @ [CHR 0x00, CHR ''S'']
   \<and> delivered (ScLogger_life SC_INFO ''a.cpp'' 1 20 [Type (String_arg 6), Type (Cstr_arg None)]
      \<lparr>verbosity_level = 200, category_level = Map.empty,
        memory = [5 \<mapsto> ''BUS'', 6 \<mapsto> ''BU'' @ [CHR 0x00, CHR ''S'']], residue = (\<lambda>p. []),
        delivered = [], constructed = 0\<rparr>) =
     [\<lparr>rep_severity = SC_INFO, rep_msg_type = ''SystemC'', rep_msg = [], rep_verbosity = 20,
       rep_file = ''a.cpp'', rep_line = 1\<rparr>]"
  by (simp add: ScLogger_life_def run_ops_def ScLogger_ctor_def ScLogger_dtor_def
      sc_report_handler_report_def deref_def c_str_def)

text \<open>
  Claim C9, amended. A call of \<^verbatim>\<open>type\<close> returns the logger it was called on with only
  \<^verbatim>\<open>t\<close> assigned, and the pointer assigned depends on the argument alone. After any run
  of calls, writes and changes of storage, the pointer stored by the last call of
  \<^verbatim>\<open>type\<close> decides the category of the record delivered: \<^verbatim>\<open>SystemC\<close> after \<^verbatim>\<open>type()\<close> and
  after a null pointer; otherwise the C string found at that pointer when the logger
  dies. If the storage is then alive and holds \<open>cs\<close>, that is \<open>cs\<close> cut before its first
  NUL, so \<open>cs\<close> itself when it holds none. Nothing is said of a pointer whose storage has
  died.
\<close>

theorem type_last_call_wins:
  "ScLogger_type a lg = lg\<lparr>logger_t := logger_t (ScLogger_type a lg')\<rparr>
   \<and> (no_type_call rest \<longrightarrow>
        delivered (ScLogger_life sev fl ln v (ops @ Type a # rest) w) = delivered w @
          [\<lparr>rep_severity = sev,
            rep_msg_type =
              (case a of
                 No_args \<Rightarrow> ''SystemC''
               | Cstr_arg None \<Rightarrow> ''SystemC''
               | Cstr_arg (Some p) \<Rightarrow>
                   c_str (deref (w\<lparr>memory := stores (ops @ rest) (memory w)\<rparr>) p)
               | String_arg p \<Rightarrow>
                   c_str (deref (w\<lparr>memory := stores (ops @ rest) (memory w)\<rparr>) p)),
            rep_msg = c_str (concat (puts (ops @ rest))), rep_verbosity = v,
            rep_file = c_str fl, rep_line = ln\<rparr>])
   \<and> (memory w' q = Some cs \<longrightarrow> c_str (deref w' q) = c_str cs)
   \<and> (memory w' q = Some cs \<and> CHR 0x00 \<notin> set cs \<longrightarrow> c_str (deref w' q) = cs)"
proof -
  have "ScLogger_type a lg = lg\<lparr>logger_t := logger_t (ScLogger_type a lg')\<rparr>"
    by (cases a) simp_all
  moreover have "delivered (ScLogger_life sev fl ln v (ops @ Type a # rest) w) = delivered w @
          [\<lparr>rep_severity = sev,
            rep_msg_type =
              (case a of
                 No_args \<Rightarrow> ''SystemC''
               | Cstr_arg None \<Rightarrow> ''SystemC''
               | Cstr_arg (Some p) \<Rightarrow>
                   c_str (deref (w\<lparr>memory := stores (ops @ rest) (memory w)\<rparr>) p)
               | String_arg p \<Rightarrow>
                   c_str (deref (w\<lparr>memory := stores (ops @ rest) (memory w)\<rparr>) p)),
            rep_msg = c_str (concat (puts (ops @ rest))), rep_verbosity = v,
            rep_file = c_str fl, rep_line = ln\<rparr>]"
    if "no_type_call rest"
    unfolding ScLogger_life_delivered run_ops_last_type [OF that] stores_Type puts_Type
    by (cases a) (simp_all split: option.split)
  ultimately show ?thesis
    by (simp add: deref_live c_str_no_nul)
qed

theorem type_last_call_wins_witness:
  "no_type_call [Put ''hi'']
   \<and> delivered (ScLogger_life SC_INFO ''a.cpp'' 5 20
       ([Type (String_arg 7), Type No_args] @ Type (Cstr_arg (Some 5)) # [Put ''hi''])
       \<lparr>verbosity_level = 200, category_level = Map.empty,
         memory = [5 \<mapsto> ''BUS'', 7 \<mapsto> ''CPU''], residue = (\<lambda>p. []), delivered = [],
         constructed = 0\<rparr>) =
     [\<lparr>rep_severity = SC_INFO, rep_msg_type = ''BUS'', rep_msg = ''hi'', rep_verbosity = 20,
       rep_file = ''a.cpp'', rep_line = 5\<rparr>]"
proof -
  have n: "no_type_call [Put ''hi'']"
    by simp
  from type_last_call_wins [of "Cstr_arg (Some 5)" _ _ "[Put ''hi'']" SC_INFO "''a.cpp''" 5 20
      "[Type (String_arg 7), Type No_args]"
      "\<lparr>verbosity_level = 200, category_level = Map.empty,
         memory = [5 \<mapsto> ''BUS'', 7 \<mapsto> ''CPU''], residue = (\<lambda>p. []), delivered = [],
         constructed = 0\<rparr>"] n
  show ?thesis
    by (simp add: deref_def c_str_def)
qed

section \<open>Properties of the logging macros\<close>

lemma get_log_verbosity_va_effective:
  "get_log_verbosity_va w a = effective_level w (category_of w a)"
proof (cases a)
  case (Args x)
  then show ?thesis
    by (cases x)
      (auto simp: get_log_verbosity_def get_log_verbosity_cstr_def get_log_verbosity_string_def
        effective_level_def split: option.splits)
next
  case (Temp_string p s)
  then show ?thesis
    by (simp add: get_log_verbosity_def get_log_verbosity_cstr_def get_log_verbosity_string_def
        effective_level_def deref_def split: option.split)
qed

lemma puts_stmt_ops: "puts (stmt_ops a ws) = ws"
  by (cases a) (simp_all add: puts_append puts_map_Put)

lemma logger_stmt_delivered:
  "\<exists>cat. delivered (logger_stmt sev fl ln v a ws w) = delivered w @
     [\<lparr>rep_severity = sev, rep_msg_type = cat, rep_msg = c_str (concat ws), rep_verbosity = v,
       rep_file = c_str fl, rep_line = ln\<rparr>]"
  by (simp add: logger_stmt_def ScLogger_life_delivered puts_stmt_ops)

lemma logger_stmt_constructed:
  "constructed (logger_stmt sev fl ln v a ws w) = constructed w + 1"
  by (simp add: logger_stmt_def ScLogger_life_constructed)

lemma logger_stmt_Args:
  "logger_stmt sev fl ln v (Args x) ws w =
     w\<lparr>delivered := delivered w @
         [\<lparr>rep_severity = sev,
           rep_msg_type = (case category_of w (Args x) of None \<Rightarrow> ''SystemC'' | Some c \<Rightarrow> c),
           rep_msg = c_str (concat ws), rep_verbosity = v,
           rep_file = c_str fl, rep_line = ln\<rparr>],
       constructed := constructed w + 1\<rparr>"
proof -
  have "logger_t (fst (run_ops (Type x # map Put ws) (ScLogger_ctor sev fl ln v w))) =
      (case x of No_args \<Rightarrow> None | Cstr_arg t \<Rightarrow> t | String_arg p \<Rightarrow> Some p)"
    using run_ops_last_type [of "map Put ws" "[]" x "ScLogger_ctor sev fl ln v w"]
    by (simp add: no_type_call_map_Put)
  moreover have "stores (Type x # map Put ws) (memory w) = memory w"
    by (simp add: stores_map_Put)
  ultimately show ?thesis
    by (cases x) (auto simp: logger_stmt_def ScLogger_life_eq puts_map_Put split: option.split)
qed

lemma tiered_macro_stmt:
  assumes "requested_level m = Some V"
  shows "macro_stmt m a ws fl ln w =
     (if V \<le> effective_level w (category_of w a)
      then logger_stmt SC_INFO fl ln (V div 10) a ws w else w)"
  using assms
  by (cases m) (simp_all add: get_log_verbosity_va_effective)

text \<open>
  Claim C1. Let \<open>m\<close> be one of the four tiered macros and \<open>V\<close> the level it asks for
  (\<^verbatim>\<open>SC_DEBUG\<close>, \<^verbatim>\<open>SC_FULL\<close>, \<^verbatim>\<open>SC_HIGH\<close>, \<^verbatim>\<open>SC_MEDIUM\<close>). For every state of the verbosity
  levels and every category argument, the statement delivers a record exactly when the
  effective level of the category (its own level if one is registered, else the global
  one) is at least \<open>V\<close>. It then constructs one logger and delivers one record of severity
  \<^verbatim>\<open>SC_INFO\<close>, whose verbosity is \<open>V / 10\<close>; otherwise it constructs no logger and changes
  nothing. The category of the record is left open in general; for an argument that
  is there before and after the statement and whose storage is alive, it is the category
  the argument names, or \<^verbatim>\<open>SystemC\<close> when it names none.
\<close>

theorem tiered_macro_gate:
  assumes "requested_level m = Some V"
  shows "(V \<le> effective_level w (category_of w a) \<longrightarrow>
            (\<exists>cat. delivered (macro_stmt m a ws fl ln w) = delivered w @
               [\<lparr>rep_severity = SC_INFO, rep_msg_type = cat, rep_msg = c_str (concat ws),
                 rep_verbosity = V div 10, rep_file = c_str fl, rep_line = ln\<rparr>])
            \<and> constructed (macro_stmt m a ws fl ln w) = constructed w + 1)
         \<and> (\<not> V \<le> effective_level w (category_of w a) \<longrightarrow> macro_stmt m a ws fl ln w = w)
         \<and> (delivered (macro_stmt m a ws fl ln w) \<noteq> delivered w
              \<longleftrightarrow> V \<le> effective_level w (category_of w a))
         \<and> (constructed (macro_stmt m a ws fl ln w) = constructed w
              \<longleftrightarrow> \<not> V \<le> effective_level w (category_of w a))
         \<and> (V \<le> effective_level w (category_of w (Args x)) \<and> arg_alive w x \<longrightarrow>
              macro_stmt m (Args x) ws fl ln w =
                w\<lparr>delivered := delivered w @
                    [\<lparr>rep_severity = SC_INFO,
                      rep_msg_type =
                        (case category_of w (Args x) of None \<Rightarrow> ''SystemC'' | Some c \<Rightarrow> c),
                      rep_msg = c_str (concat ws), rep_verbosity = V div 10,
                      rep_file = c_str fl, rep_line = ln\<rparr>],
                  constructed := constructed w + 1\<rparr>)"
proof -
  obtain cat where "delivered (logger_stmt SC_INFO fl ln (V div 10) a ws w) = delivered w @
       [\<lparr>rep_severity = SC_INFO, rep_msg_type = cat, rep_msg = c_str (concat ws),
         rep_verbosity = V div 10, rep_file = c_str fl, rep_line = ln\<rparr>]"
    using logger_stmt_delivered by blast
  then show ?thesis
    by (simp add: tiered_macro_stmt [OF assms] logger_stmt_constructed logger_stmt_Args)
qed

theorem tiered_macro_gate_witness:
  "requested_level SCCTRACE = Some SC_FULL
   \<and> SC_FULL \<le> effective_level
        \<lparr>verbosity_level = 200, category_level = [''BUS'' \<mapsto> 400],
          memory = [5 \<mapsto> ''BUS'', 6 \<mapsto> ''CPU''], residue = (\<lambda>p. []), delivered = [],
          constructed = 0\<rparr>
        (category_of
          \<lparr>verbosity_level = 200, category_level = [''BUS'' \<mapsto> 400],
            memory = [5 \<mapsto> ''BUS'', 6 \<mapsto> ''CPU''], residue = (\<lambda>p. []), delivered = [],
            constructed = 0\<rparr>
          (Args (Cstr_arg (Some 5))))
   \<and> arg_alive
        \<lparr>verbosity_level = 200, category_level = [''BUS'' \<mapsto> 400],
          memory = [5 \<mapsto> ''BUS'', 6 \<mapsto> ''CPU''], residue = (\<lambda>p. []), delivered = [],
          constructed = 0\<rparr>
        (Cstr_arg (Some 5))
   \<and> macro_stmt SCCTRACE (Args (Cstr_arg (Some 5))) [''rd''] ''bus.cpp'' 7
        \<lparr>verbosity_level = 200, category_level = [''BUS'' \<mapsto> 400],
          memory = [5 \<mapsto> ''BUS'', 6 \<mapsto> ''CPU''], residue = (\<lambda>p. []), delivered = [],
          constructed = 0\<rparr> =
      \<lparr>verbosity_level = 200, category_level = [''BUS'' \<mapsto> 400],
        memory = [5 \<mapsto> ''BUS'', 6 \<mapsto> ''CPU''], residue = (\<lambda>p. []),
        delivered = [\<lparr>rep_severity = SC_INFO, rep_msg_type = ''BUS'', rep_msg = ''rd'',
                      rep_verbosity = 40, rep_file = ''bus.cpp'', rep_line = 7\<rparr>],
        constructed = 1\<rparr>
   \<and> \<not> SC_FULL \<le> effective_level
        \<lparr>verbosity_level = 200, category_level = [''BUS'' \<mapsto> 400],
          memory = [5 \<mapsto> ''BUS'', 6 \<mapsto> ''CPU''], residue = (\<lambda>p. []), delivered = [],
          constructed = 0\<rparr>
        (category_of
          \<lparr>verbosity_level = 200, category_level = [''BUS'' \<mapsto> 400],
            memory = [5 \<mapsto> ''BUS'', 6 \<mapsto> ''CPU''], residue = (\<lambda>p. []), delivered = [],
            constructed = 0\<rparr>
          (Args (String_arg 6)))
   \<and> macro_stmt SCCTRACE (Args (String_arg 6)) [''rd''] ''cpu.cpp'' 8
        \<lparr>verbosity_level = 200, category_level = [''BUS'' \<mapsto> 400],
          memory = [5 \<mapsto> ''BUS'', 6 \<mapsto> ''CPU''], residue = (\<lambda>p. []), delivered = [],
          constructed = 0\<rparr> =
      \<lparr>verbosity_level = 200, category_level = [''BUS'' \<mapsto> 400],
        memory = [5 \<mapsto> ''BUS'', 6 \<mapsto> ''CPU''], residue = (\<lambda>p. []), delivered = [],
        constructed = 0\<rparr>"
proof -
  let ?w = "\<lparr>verbosity_level = 200, category_level = [''BUS'' \<mapsto> 400],
             memory = [5 \<mapsto> ''BUS'', 6 \<mapsto> ''CPU''], residue = (\<lambda>p. []), delivered = [],
             constructed = 0\<rparr>"
  have r: "requested_level SCCTRACE = Some SC_FULL"
    by simp
  have bus: "SC_FULL \<le> effective_level ?w (category_of ?w (Args (Cstr_arg (Some 5))))"
    by (simp add: effective_level_def deref_def c_str_def SC_FULL_def)
  have alive: "arg_alive ?w (Cstr_arg (Some 5))"
    by simp
  have cpu: "\<not> SC_FULL \<le> effective_level ?w (category_of ?w (Args (String_arg 6)))"
    by (simp add: effective_level_def deref_def c_str_def SC_FULL_def)
  from tiered_macro_gate [OF r, of ?w _ "[''rd'']" "''bus.cpp''" 7 "Cstr_arg (Some 5)"]
    bus alive
  have "macro_stmt SCCTRACE (Args (Cstr_arg (Some 5))) [''rd''] ''bus.cpp'' 7 ?w =
      \<lparr>verbosity_level = 200, category_level = [''BUS'' \<mapsto> 400],
        memory = [5 \<mapsto> ''BUS'', 6 \<mapsto> ''CPU''], residue = (\<lambda>p. []),
        delivered = [\<lparr>rep_severity = SC_INFO, rep_msg_type = ''BUS'', rep_msg = ''rd'',
                      rep_verbosity = 40, rep_file = ''bus.cpp'', rep_line = 7\<rparr>],
        constructed = 1\<rparr>"
    by (simp add: deref_def c_str_def SC_FULL_def)
  moreover
  from tiered_macro_gate [OF r, of ?w "Args (String_arg 6)" "[''rd'']" "''cpu.cpp''" 8] cpu
  have "macro_stmt SCCTRACE (Args (String_arg 6)) [''rd''] ''cpu.cpp'' 8 ?w = ?w"
    by blast
  ultimately show ?thesis
    using r bus cpu alive by blast
qed

text \<open>
  Claim C2. For every state of the verbosity levels and every category argument, a
  statement of \<^verbatim>\<open>SCCWARN\<close>, \<^verbatim>\<open>SCCERR\<close> or \<^verbatim>\<open>SCCFATAL\<close> constructs one logger and delivers
  one record, of severity \<^verbatim>\<open>SC_WARNING\<close>, \<^verbatim>\<open>SC_ERROR\<close> or \<^verbatim>\<open>SC_FATAL\<close> and verbosity
  \<^verbatim>\<open>SC_MEDIUM\<close>: no verbosity level is consulted. The category of the record is left open.
\<close>

theorem untiered_macro_always_delivers:
  "(\<exists>cat. delivered (macro_stmt SCCWARN a ws fl ln w) = delivered w @
      [\<lparr>rep_severity = SC_WARNING, rep_msg_type = cat, rep_msg = c_str (concat ws),
        rep_verbosity = SC_MEDIUM, rep_file = c_str fl, rep_line = ln\<rparr>])
   \<and> constructed (macro_stmt SCCWARN a ws fl ln w) = constructed w + 1
   \<and> (\<exists>cat. delivered (macro_stmt SCCERR a ws fl ln w) = delivered w @
      [\<lparr>rep_severity = SC_ERROR, rep_msg_type = cat, rep_msg = c_str (concat ws),
        rep_verbosity = SC_MEDIUM, rep_file = c_str fl, rep_line = ln\<rparr>])
   \<and> constructed (macro_stmt SCCERR a ws fl ln w) = constructed w + 1
   \<and> (\<exists>cat. delivered (macro_stmt SCCFATAL a ws fl ln w) = delivered w @
      [\<lparr>rep_severity = SC_FATAL, rep_msg_type = cat, rep_msg = c_str (concat ws),
        rep_verbosity = SC_MEDIUM, rep_file = c_str fl, rep_line = ln\<rparr>])
   \<and> constructed (macro_stmt SCCFATAL a ws fl ln w) = constructed w + 1"
  using logger_stmt_delivered [of SC_WARNING fl ln SC_MEDIUM a ws w]
    logger_stmt_delivered [of SC_ERROR fl ln SC_MEDIUM a ws w]
    logger_stmt_delivered [of SC_FATAL fl ln SC_MEDIUM a ws w]
  by (simp add: logger_stmt_constructed)

theorem untiered_macro_always_delivers_witness:
  "length (delivered (macro_stmt SCCWARN (Temp_string 9 ''BBBB'') [''bad''] ''a.cpp'' 2
      \<lparr>verbosity_level = 0, category_level = Map.empty, memory = Map.empty,
        residue = (\<lambda>p. []), delivered = [], constructed = 0\<rparr>)) = 1
   \<and> constructed (macro_stmt SCCWARN (Temp_string 9 ''BBBB'') [''bad''] ''a.cpp'' 2
      \<lparr>verbosity_level = 0, category_level = Map.empty, memory = Map.empty,
        residue = (\<lambda>p. []), delivered = [], constructed = 0\<rparr>) = 1
   \<and> rep_msg (hd (delivered (macro_stmt SCCWARN (Temp_string 9 ''BBBB'') [''bad''] ''a.cpp'' 2
      \<lparr>verbosity_level = 0, category_level = Map.empty, memory = Map.empty,
        residue = (\<lambda>p. []), delivered = [], constructed = 0\<rparr>))) = ''bad''
   \<and> rep_severity (hd (delivered (macro_stmt SCCERR (Args No_args) [''bad''] ''a.cpp'' 2
      \<lparr>verbosity_level = 0, category_level = Map.empty, memory = Map.empty,
        residue = (\<lambda>p. []), delivered = [], constructed = 0\<rparr>))) = SC_ERROR"
proof -
  let ?w = "\<lparr>verbosity_level = 0, category_level = Map.empty, memory = Map.empty,
        residue = (\<lambda>p. []), delivered = [], constructed = 0\<rparr>"
  from untiered_macro_always_delivers [of "Temp_string 9 ''BBBB''" "[''bad'']" "''a.cpp''" 2 ?w]
  obtain cat where
    "delivered (macro_stmt SCCWARN (Temp_string 9 ''BBBB'') [''bad''] ''a.cpp'' 2 ?w) =
       [\<lparr>rep_severity = SC_WARNING, rep_msg_type = cat, rep_msg = c_str (concat [''bad'']),
         rep_verbosity = SC_MEDIUM, rep_file = c_str ''a.cpp'', rep_line = 2\<rparr>]"
    "constructed (macro_stmt SCCWARN (Temp_string 9 ''BBBB'') [''bad''] ''a.cpp'' 2 ?w) = 1"
    by auto
  moreover
  from untiered_macro_always_delivers [of "Args No_args" "[''bad'']" "''a.cpp''" 2 ?w]
  obtain cat' where
    "delivered (macro_stmt SCCERR (Args No_args) [''bad''] ''a.cpp'' 2 ?w) =
       [\<lparr>rep_severity = SC_ERROR, rep_msg_type = cat', rep_msg = c_str (concat [''bad'']),
         rep_verbosity = SC_MEDIUM, rep_file = c_str ''a.cpp'', rep_line = 2\<rparr>]"
    by auto
  ultimately show ?thesis
    by (simp add: c_str_def)
qed

section \<open>Properties of the stream redirection\<close>

lemma forward_frame:
  "os_rdbuf (forward r) = os_rdbuf r" "own_buf (forward r) = own_buf r"
  "old_buf (forward r) = old_buf r" "restored (forward r) = restored r"
  "red_level (forward r) = red_level r"
  by (simp_all add: forward_def)

lemma xsputn_frame:
  "os_rdbuf (xsputn cs r) = os_rdbuf r \<and> own_buf (xsputn cs r) = own_buf r \<and>
   old_buf (xsputn cs r) = old_buf r \<and> restored (xsputn cs r) = restored r \<and>
   red_level (xsputn cs r) = red_level r"
  by (induction cs arbitrary: r) (simp_all add: forward_frame)

lemma os_write_frame:
  "os_rdbuf (os_write cs r) = os_rdbuf r \<and> own_buf (os_write cs r) = own_buf r \<and>
   old_buf (os_write cs r) = old_buf r \<and> restored (os_write cs r) = restored r \<and>
   red_level (os_write cs r) = red_level r"
  by (simp add: os_write_def xsputn_frame)

lemma sync_frame:
  "os_rdbuf (sync r) = os_rdbuf r" "own_buf (sync r) = own_buf r"
  "old_buf (sync r) = old_buf r" "restored (sync r) = restored r"
  by (simp_all add: sync_def forward_frame)

lemma reset_reset: "reset (reset r) = reset r"
  by (cases "old_buf r") (simp_all add: reset_def)

lemma reset_active:
  assumes "old_buf r = Some b"
  shows "os_rdbuf (reset r) = b" "old_buf (reset r) = None" "restored (reset r) = restored r @ [b]"
  using assms by (simp_all add: reset_def)

text \<open>
  Claim C6. In a fresh session at level \<open>lvl\<close>, writing \<^verbatim>\<open>abc\<close>, newline, \<^verbatim>\<open>def\<close>, newline
  forwards exactly two records, with the texts \<^verbatim>\<open>abc\<close> and \<^verbatim>\<open>def\<close>, each at level \<open>lvl\<close>
  with no category. Writing \<^verbatim>\<open>abc\<close> alone forwards nothing; a newline written next, a
  flush or \<^verbatim>\<open>reset\<close> then forwards the one record \<^verbatim>\<open>abc\<close>.
\<close>

theorem redirection_line_splitting:
  "forwarded (os_write ''abc\<newline>def\<newline>'' (stream_redirection_ctor cur own lvl)) =
     [\<lparr>lr_level = lvl, lr_category = None, lr_text = ''abc''\<rparr>,
      \<lparr>lr_level = lvl, lr_category = None, lr_text = ''def''\<rparr>]
   \<and> forwarded (os_write ''abc'' (stream_redirection_ctor cur own lvl)) = []
   \<and> forwarded (os_write ''\<newline>'' (os_write ''abc'' (stream_redirection_ctor cur own lvl))) =
       [\<lparr>lr_level = lvl, lr_category = None, lr_text = ''abc''\<rparr>]
   \<and> forwarded (os_flush (os_write ''abc'' (stream_redirection_ctor cur own lvl))) =
       [\<lparr>lr_level = lvl, lr_category = None, lr_text = ''abc''\<rparr>]
   \<and> forwarded (reset (os_write ''abc'' (stream_redirection_ctor cur own lvl))) =
       [\<lparr>lr_level = lvl, lr_category = None, lr_text = ''abc''\<rparr>]"
  by (simp add: os_write_def os_flush_def stream_redirection_ctor_def forward_def sync_def
      reset_def)

theorem redirection_line_splitting_witness:
  "forwarded (os_write ''abc\<newline>def\<newline>'' (stream_redirection_ctor 1 2 INFO)) =
     [\<lparr>lr_level = INFO, lr_category = None, lr_text = ''abc''\<rparr>,
      \<lparr>lr_level = INFO, lr_category = None, lr_text = ''def''\<rparr>]
   \<and> forwarded (os_write ''abc'' (stream_redirection_ctor 1 2 INFO)) = []"
  using redirection_line_splitting [of 1 2 INFO] by blast

text \<open>
  Claim C7. Take a session started on a stream whose buffer was \<open>cur\<close>, after any write.
  \<^verbatim>\<open>reset\<close> puts \<open>cur\<close> back into the stream; a second \<^verbatim>\<open>reset\<close> changes nothing, so \<open>cur\<close> has
  been put back exactly once; the destructor after a \<^verbatim>\<open>reset\<close> changes nothing either; and
  the destructor of a session that was never reset puts \<open>cur\<close> back, once. \<^verbatim>\<open>reset\<close> applied
  twice equals \<^verbatim>\<open>reset\<close> applied once in every state.
\<close>

theorem reset_idempotent:
  "reset (reset r) = reset r
   \<and> os_rdbuf (reset (os_write cs (stream_redirection_ctor cur own lvl))) = cur
   \<and> restored (reset (os_write cs (stream_redirection_ctor cur own lvl))) = [cur]
   \<and> restored (reset (reset (os_write cs (stream_redirection_ctor cur own lvl)))) = [cur]
   \<and> stream_redirection_dtor (reset (os_write cs (stream_redirection_ctor cur own lvl))) =
       reset (os_write cs (stream_redirection_ctor cur own lvl))
   \<and> os_rdbuf (stream_redirection_dtor (os_write cs (stream_redirection_ctor cur own lvl))) = cur
   \<and> restored (stream_redirection_dtor (os_write cs (stream_redirection_ctor cur own lvl))) = [cur]"
proof -
  let ?r = "os_write cs (stream_redirection_ctor cur own lvl)"
  have "old_buf ?r = Some cur" "restored ?r = []"
    by (simp_all add: os_write_frame stream_redirection_ctor_def)
  with reset_active [of ?r cur] show ?thesis
    by (simp add: reset_reset stream_redirection_dtor_def)
qed

theorem reset_idempotent_witness:
  "restored (reset (reset (os_write ''abc'' (stream_redirection_ctor 1 2 INFO)))) = [1]
   \<and> os_rdbuf (reset (reset (os_write ''abc'' (stream_redirection_ctor 1 2 INFO)))) = 1
   \<and> restored (stream_redirection_dtor (os_write ''abc'' (stream_redirection_ctor 1 2 INFO))) = [1]"
  using reset_idempotent [of "os_write ''abc'' (stream_redirection_ctor 1 2 INFO)" "''abc''" 1 2 INFO]
  by simp

end
